theory Spec2Isabelle
  imports Main
begin

section \<open>The training agent of ORTModule\<close>

text \<open>
  A shallow embedding of \<^verbatim>\<open>orttraining/python/training/training_agent.py\<close>: the class
  \<^verbatim>\<open>TrainingAgent\<close>, a Python wrapper around three collaborators that live outside the
  file: \<^verbatim>\<open>onnxruntime.InferenceSession\<close>, \<^verbatim>\<open>IOBinding\<close> / \<^verbatim>\<open>OrtValue\<close> of
  \<^verbatim>\<open>onnxruntime_inference_collection\<close>, and the native \<^verbatim>\<open>C_TrainingAgent\<close>.

  Python objects are references: an object is an address, and what it holds lives
  in a world state that every call takes and returns. An exception is a value
  \<open>Inl e\<close>; a method returns its result, the object \<open>self\<close> as the call left it and the
  world as the call left it.
\<close>

subsection \<open>Values\<close>

type_synonym addr = nat
type_synonym run_id = nat
type_synonym token_id = nat

text \<open>An options dict, as \<^verbatim>\<open>provider_options\<close>, session options and run options are.\<close>
type_synonym options = "(string \<times> string) list"

text \<open>\<^verbatim>\<open>path_or_bytes\<close>: a file name or a serialized model.\<close>
datatype model_source = Path string | Bytes "nat list"

text \<open>An entry of \<^verbatim>\<open>providers\<close>: a provider name, or a tuple (provider name, options dict).\<close>
datatype provider = ProviderName string | ProviderWithOptions string options

datatype error =
    AttributeError       \<comment> \<open>an attribute of \<^verbatim>\<open>None\<close> is read\<close>
  | ConstructionError    \<comment> \<open>model not loaded, format invalid, no provider resolved\<close>
  | ConfigurationError   \<comment> \<open>mutually exclusive options supplied together\<close>
  | InvalidRun           \<comment> \<open>run identifier unknown, completed, or not resumable\<close>
  | ValueCountMismatch   \<comment> \<open>wrong number of replacement or gradient values\<close>
  | InvalidHandle        \<comment> \<open>a native handle that denotes no live object\<close>

text \<open>
  The Python classes the agent handles. \<^verbatim>\<open>InferenceSession\<close> keeps its native session
  in \<^verbatim>\<open>_sess\<close>, \<^verbatim>\<open>IOBinding\<close> its native binding in \<^verbatim>\<open>_iobinding\<close>, and \<^verbatim>\<open>OrtValue\<close>
  wraps one native value.
\<close>
datatype InferenceSession = InferenceSession (sess: addr)
datatype IOBinding = IOBinding (iobinding: addr)
datatype 'v OrtValue = OrtValue (ortvalue: 'v)

subsection \<open>The collaborators\<close>

text \<open>
  What the module imports and calls. Their code is not part of the file, so the agent
  is defined over any implementation of them: \<open>'v\<close> is the native tensor value,
  \<open>'w\<close> the state of everything outside the agent.

  Modelled from the spec: \<open>c_resume_backward\<close>, a backward-resume primitive of the
  native agent. The source never calls it; only \<open>resume_backward_spec\<close> below does.
\<close>
record ('v, 'w) collaborators =
  InferenceSession_init ::
    "model_source \<Rightarrow> options option \<Rightarrow> provider list option \<Rightarrow> options list option
      \<Rightarrow> 'w \<Rightarrow> (error + InferenceSession) \<times> 'w"
  C_TrainingAgent_init :: "addr \<Rightarrow> 'w \<Rightarrow> (error + addr) \<times> 'w"
  IOBinding_init :: "InferenceSession option \<Rightarrow> 'w \<Rightarrow> (error + IOBinding) \<times> 'w"
  c_run_forward ::
    "addr \<Rightarrow> addr \<Rightarrow> options \<Rightarrow> 'w \<Rightarrow> (error + 'v list \<times> run_id \<times> token_id) \<times> 'w"
  c_resume_forward ::
    "addr \<Rightarrow> 'v list \<Rightarrow> run_id \<Rightarrow> 'w \<Rightarrow> (error + 'v list \<times> run_id \<times> token_id) \<times> 'w"
  c_run_backward ::
    "addr \<Rightarrow> 'v list \<Rightarrow> run_id \<Rightarrow> 'w \<Rightarrow> (error + 'v list \<times> run_id \<times> token_id) \<times> 'w"
  c_resume_backward ::
    "addr \<Rightarrow> 'v list \<Rightarrow> run_id \<Rightarrow> 'w \<Rightarrow> (error + 'v list \<times> run_id \<times> token_id) \<times> 'w"

subsection \<open>The class \<^verbatim>\<open>TrainingAgent\<close>\<close>

text \<open>The two attributes of an agent; \<^verbatim>\<open>None\<close> until \<^verbatim>\<open>create_training_agent\<close> sets them.\<close>
record TrainingAgent =
  training_agent :: "addr option"
  inference_session :: "InferenceSession option"

text \<open>
  \<^verbatim>\<open>create_training_agent\<close> assigns \<^verbatim>\<open>self._inference_session\<close> before it builds the
  native agent: when the second constructor raises, the first assignment stands.
\<close>
definition create_training_agent ::
  "('v, 'w) collaborators \<Rightarrow> TrainingAgent \<Rightarrow> model_source \<Rightarrow> options option
    \<Rightarrow> provider list option \<Rightarrow> options list option \<Rightarrow> 'w
    \<Rightarrow> (error + unit) \<times> TrainingAgent \<times> 'w" where
  "create_training_agent env self path_or_bytes session_options providers provider_options w =
     (case InferenceSession_init env path_or_bytes session_options providers provider_options w of
        (Inl e, w1) \<Rightarrow> (Inl e, self, w1)
      | (Inr s, w1) \<Rightarrow>
          (let self1 = self\<lparr>inference_session := Some s\<rparr> in
           case C_TrainingAgent_init env (sess s) w1 of
             (Inl e, w2) \<Rightarrow> (Inl e, self1, w2)
           | (Inr a, w2) \<Rightarrow> (Inr (), self1\<lparr>training_agent := Some a\<rparr>, w2)))"

text \<open>
  \<^verbatim>\<open>TrainingAgent(path_or_bytes, session_options, providers, provider_options)\<close>:
  \<^verbatim>\<open>__init__\<close> on a new object. An exception leaves the caller without the object.
\<close>
definition TrainingAgent_init ::
  "('v, 'w) collaborators \<Rightarrow> model_source \<Rightarrow> options option
    \<Rightarrow> provider list option \<Rightarrow> options list option \<Rightarrow> 'w
    \<Rightarrow> (error + TrainingAgent) \<times> 'w" where
  "TrainingAgent_init env path_or_bytes session_options providers provider_options w =
     (let self = \<lparr>training_agent = None, inference_session = None\<rparr> in
      case create_training_agent env self path_or_bytes session_options providers
             provider_options w of
        (Inl e, self', w') \<Rightarrow> (Inl e, w')
      | (Inr u, self', w') \<Rightarrow> (Inr self', w'))"

definition io_binding ::
  "('v, 'w) collaborators \<Rightarrow> TrainingAgent \<Rightarrow> 'w \<Rightarrow> (error + IOBinding) \<times> TrainingAgent \<times> 'w" where
  "io_binding env self w =
     (case IOBinding_init env (inference_session self) w of
        (r, w') \<Rightarrow> (r, self, w'))"

definition run_forward ::
  "('v, 'w) collaborators \<Rightarrow> TrainingAgent \<Rightarrow> IOBinding \<Rightarrow> options \<Rightarrow> 'w
    \<Rightarrow> (error + 'v OrtValue list \<times> run_id \<times> token_id) \<times> TrainingAgent \<times> 'w" where
  "run_forward env self iob run_options w =
     (case training_agent self of
        None \<Rightarrow> (Inl AttributeError, self, w)
      | Some a \<Rightarrow>
          (case c_run_forward env a (iobinding iob) run_options w of
             (Inl e, w') \<Rightarrow> (Inl e, self, w')
           | (Inr (ortvalues, run_id, token_id), w') \<Rightarrow>
               (Inr (map OrtValue ortvalues, run_id, token_id), self, w')))"

definition resume_forward ::
  "('v, 'w) collaborators \<Rightarrow> TrainingAgent \<Rightarrow> 'v list \<Rightarrow> run_id \<Rightarrow> 'w
    \<Rightarrow> (error + 'v OrtValue list \<times> run_id \<times> token_id) \<times> TrainingAgent \<times> 'w" where
  "resume_forward env self resume_inputs run_id w =
     (case training_agent self of
        None \<Rightarrow> (Inl AttributeError, self, w)
      | Some a \<Rightarrow>
          (case c_resume_forward env a resume_inputs run_id w of
             (Inl e, w') \<Rightarrow> (Inl e, self, w')
           | (Inr (ortvalues, run_id', token_id), w') \<Rightarrow>
               (Inr (map OrtValue ortvalues, run_id', token_id), self, w')))"

definition run_backward ::
  "('v, 'w) collaborators \<Rightarrow> TrainingAgent \<Rightarrow> 'v list \<Rightarrow> run_id \<Rightarrow> 'w
    \<Rightarrow> (error + 'v OrtValue list \<times> run_id \<times> token_id) \<times> TrainingAgent \<times> 'w" where
  "run_backward env self backward_output_grads run_id w =
     (case training_agent self of
        None \<Rightarrow> (Inl AttributeError, self, w)
      | Some a \<Rightarrow>
          (case c_run_backward env a backward_output_grads run_id w of
             (Inl e, w') \<Rightarrow> (Inl e, self, w')
           | (Inr (ortvalues, run_id', token_id), w') \<Rightarrow>
               (Inr (map OrtValue ortvalues, run_id', token_id), self, w')))"

text \<open>Line 90 of the source: the native call is \<^verbatim>\<open>run_backward\<close>.\<close>
definition resume_backward ::
  "('v, 'w) collaborators \<Rightarrow> TrainingAgent \<Rightarrow> 'v list \<Rightarrow> run_id \<Rightarrow> 'w
    \<Rightarrow> (error + 'v OrtValue list \<times> run_id \<times> token_id) \<times> TrainingAgent \<times> 'w" where
  "resume_backward env self resume_inputs run_id w =
     (case training_agent self of
        None \<Rightarrow> (Inl AttributeError, self, w)
      | Some a \<Rightarrow>
          (case c_run_backward env a resume_inputs run_id w of
             (Inl e, w') \<Rightarrow> (Inl e, self, w')
           | (Inr (ortvalues, run_id', token_id), w') \<Rightarrow>
               (Inr (map OrtValue ortvalues, run_id', token_id), self, w')))"

text \<open>
  The specification's \<^verbatim>\<open>resume_backward\<close> (its section 4.5), to compare with the one of
  the source: the resumption contract of \<^verbatim>\<open>resume_forward\<close>, on a backward run, through
  a backward-resume primitive of its own.
\<close>
definition resume_backward_spec ::
  "('v, 'w) collaborators \<Rightarrow> TrainingAgent \<Rightarrow> 'v list \<Rightarrow> run_id \<Rightarrow> 'w
    \<Rightarrow> (error + 'v OrtValue list \<times> run_id \<times> token_id) \<times> TrainingAgent \<times> 'w" where
  "resume_backward_spec env self resume_inputs run_id w =
     (case training_agent self of
        None \<Rightarrow> (Inl AttributeError, self, w)
      | Some a \<Rightarrow>
          (case c_resume_backward env a resume_inputs run_id w of
             (Inl e, w') \<Rightarrow> (Inl e, self, w')
           | (Inr (ortvalues, run_id', token_id), w') \<Rightarrow>
               (Inr (map OrtValue ortvalues, run_id', token_id), self, w')))"

subsection \<open>The collaborators, as the specification describes them\<close>

text \<open>
  Modelled from the spec: a subgraph, whose code (the graph and its yield operators)
  is not in the sources. A subgraph is the yield points execution meets in order, each
  with the values of its declared output slots, up to the outputs at the graph's end.
\<close>
datatype 'v subgraph = End "'v list" | Yield "'v list" "'v subgraph"

text \<open>Modelled from the spec: a loaded model, split into a forward and a backward subgraph.\<close>
record 'v graph =
  forward :: "'v subgraph"
  backward :: "'v subgraph"

text \<open>Modelled from the spec: the subgraph a run executes, forward or backward.\<close>
datatype direction = Forward | Backward

text \<open>
  Modelled from the spec: the state of a run (section 4, "State machine"). A run
  suspended at a yield keeps its direction, the token of the suspension, the yielded
  slots and the rest of its subgraph; a completed run keeps its terminal token.
\<close>
datatype 'v run_state =
    Suspended direction token_id "'v list" "'v subgraph"
  | Completed token_id

text \<open>
  Modelled from the spec: everything outside the agent. An object is the index at
  which it was created: native sessions (each a loaded graph), native agents (each
  bound to a session), native bindings (each bound to a session), and the runs (each
  owned by a native agent). The models that can be loaded and the execution providers
  that can be resolved are part of the world.
\<close>
record 'v world =
  models :: "(model_source \<times> 'v graph) list"
  available_providers :: "string list"
  sessions :: "'v graph list"
  agents :: "addr list"
  bindings :: "addr list"
  runs :: "(addr \<times> 'v run_state) list"
  next_token :: token_id

text \<open>The object at an address, if one was created there.\<close>
definition lookup :: "'a list \<Rightarrow> nat \<Rightarrow> 'a option" where
  "lookup xs i = (if i < length xs then Some (xs ! i) else None)"

text \<open>
  Modelled from the spec: the graph a native agent executes, the one loaded by the
  session it is bound to.
\<close>
definition graph_of :: "'v world \<Rightarrow> addr \<Rightarrow> 'v graph option" where
  "graph_of w a = (case lookup (agents w) a of None \<Rightarrow> None | Some s \<Rightarrow> lookup (sessions w) s)"

text \<open>
  Modelled from the spec: execution of a subgraph "until the next yield operator or
  graph end" (sections 4.2 to 4.5): the values of the point reached and the state the
  run is left in.
\<close>
fun reach :: "direction \<Rightarrow> token_id \<Rightarrow> 'v subgraph \<Rightarrow> 'v list \<times> 'v run_state" where
  "reach d tok (End outs) = (outs, Completed tok)"
| "reach d tok (Yield outs rest) = (outs, Suspended d tok outs rest)"

text \<open>
  Modelled from the spec: the declared output slots of the point a subgraph reaches
  first when it is executed, its first yield operator or, with none, the graph's end.
\<close>
fun declared_slots :: "'v subgraph \<Rightarrow> 'v list" where
  "declared_slots (End outs) = outs"
| "declared_slots (Yield outs rest) = outs"

text \<open>Whether an entry of \<^verbatim>\<open>providers\<close> is a tuple, and the provider it names.\<close>
fun has_options :: "provider \<Rightarrow> bool" where
  "has_options (ProviderName n) = False"
| "has_options (ProviderWithOptions n opts) = True"

fun provider_name :: "provider \<Rightarrow> string" where
  "provider_name (ProviderName n) = n"
| "provider_name (ProviderWithOptions n opts) = n"

text \<open>
  Modelled from the spec: the checks of the session's constructor (sections 6 and 7),
  whose code is in \<^verbatim>\<open>onnxruntime_inference_collection\<close>. Inline options together with
  a parallel options list are a configuration error; a declared format other than the
  two serialized formats, a model that does not load and a provider list of which none
  resolves are construction errors.
\<close>
definition inline_and_parallel :: "provider list option \<Rightarrow> options list option \<Rightarrow> bool" where
  "inline_and_parallel providers provider_options =
     (case providers of
        None \<Rightarrow> False
      | Some ps \<Rightarrow> (case provider_options of None \<Rightarrow> False | Some os \<Rightarrow> list_ex has_options ps))"

definition format_ok :: "options option \<Rightarrow> bool" where
  "format_ok session_options =
     (case session_options of
        None \<Rightarrow> True
      | Some so \<Rightarrow>
          (case map_of so ''session.load_model_format'' of
             None \<Rightarrow> True
           | Some f \<Rightarrow> f = ''ONNX'' \<or> f = ''ORT''))"

definition providers_resolved :: "string list \<Rightarrow> provider list option \<Rightarrow> bool" where
  "providers_resolved available providers =
     (case providers of
        None \<Rightarrow> True
      | Some ps \<Rightarrow> ps = [] \<or> list_ex (\<lambda>p. List.member available (provider_name p)) ps)"

text \<open>
  Modelled from the spec: \<^verbatim>\<open>onnxruntime.InferenceSession(...)\<close>. The options are
  checked first, then the model is loaded and the providers resolved; a session that
  is built is a new native session holding the loaded graph.
\<close>
definition native_InferenceSession_init ::
  "model_source \<Rightarrow> options option \<Rightarrow> provider list option \<Rightarrow> options list option
    \<Rightarrow> 'v world \<Rightarrow> (error + InferenceSession) \<times> 'v world" where
  "native_InferenceSession_init path_or_bytes session_options providers provider_options w =
     (if inline_and_parallel providers provider_options then (Inl ConfigurationError, w)
      else if \<not> format_ok session_options then (Inl ConstructionError, w)
      else case map_of (models w) path_or_bytes of
             None \<Rightarrow> (Inl ConstructionError, w)
           | Some g \<Rightarrow>
               if providers_resolved (available_providers w) providers
               then (Inr (InferenceSession (length (sessions w))),
                     w\<lparr>sessions := sessions w @ [g]\<rparr>)
               else (Inl ConstructionError, w))"

text \<open>
  Modelled from the spec: \<^verbatim>\<open>C_TrainingAgent(session)\<close>, the native agent bound to the
  execution context of a native session (section 4.1).
\<close>
definition native_C_TrainingAgent_init :: "addr \<Rightarrow> 'v world \<Rightarrow> (error + addr) \<times> 'v world" where
  "native_C_TrainingAgent_init s w =
     (if s < length (sessions w)
      then (Inr (length (agents w)), w\<lparr>agents := agents w @ [s]\<rparr>)
      else (Inl InvalidHandle, w))"

text \<open>
  Modelled from the spec: \<^verbatim>\<open>IOBinding(session)\<close> of \<^verbatim>\<open>onnxruntime_inference_collection\<close>:
  a new native binding for the native session of the Python session it is given.
\<close>
definition native_IOBinding_init ::
  "InferenceSession option \<Rightarrow> 'v world \<Rightarrow> (error + IOBinding) \<times> 'v world" where
  "native_IOBinding_init session w =
     (case session of
        None \<Rightarrow> (Inl AttributeError, w)
      | Some s \<Rightarrow> (Inr (IOBinding (length (bindings w))), w\<lparr>bindings := bindings w @ [sess s]\<rparr>))"

text \<open>
  Modelled from the spec: the native \<^verbatim>\<open>run_forward\<close> (section 4.2). It runs the forward
  subgraph to its first yield or its end and registers the run under a new run
  identifier, with a new token.
\<close>
definition native_run_forward ::
  "addr \<Rightarrow> addr \<Rightarrow> options \<Rightarrow> 'v world \<Rightarrow> (error + 'v list \<times> run_id \<times> token_id) \<times> 'v world" where
  "native_run_forward a b run_options w =
     (case graph_of w a of
        None \<Rightarrow> (Inl InvalidHandle, w)
      | Some g \<Rightarrow>
          (case reach Forward (next_token w) (forward g) of
             (outs, st) \<Rightarrow>
               (Inr (outs, length (runs w), next_token w),
                w\<lparr>runs := runs w @ [(a, st)], next_token := Suc (next_token w)\<rparr>)))"

text \<open>
  Modelled from the spec: resumption of a suspended run (sections 4.3 and 4.5, and the
  errors of section 7). The run must be known, owned by the agent, suspended and of the
  direction asked for; the values must be one per yielded slot, or the run stays as it
  was. The run keeps its identifier and gets a new token.
\<close>
definition native_resume ::
  "direction \<Rightarrow> addr \<Rightarrow> 'v list \<Rightarrow> run_id \<Rightarrow> 'v world
    \<Rightarrow> (error + 'v list \<times> run_id \<times> token_id) \<times> 'v world" where
  "native_resume d a vals rid w =
     (case lookup (runs w) rid of
        None \<Rightarrow> (Inl InvalidRun, w)
      | Some (owner, Completed tok) \<Rightarrow> (Inl InvalidRun, w)
      | Some (owner, Suspended d' tok slots rest) \<Rightarrow>
          if owner \<noteq> a \<or> d' \<noteq> d then (Inl InvalidRun, w)
          else if length vals \<noteq> length slots then (Inl ValueCountMismatch, w)
          else (case reach d (next_token w) rest of
                  (outs, st) \<Rightarrow>
                    (Inr (outs, rid, next_token w),
                     w\<lparr>runs := (runs w)[rid := (a, st)], next_token := Suc (next_token w)\<rparr>)))"

text \<open>
  Modelled from the spec: the native \<^verbatim>\<open>run_backward\<close> (section 4.4). The run referred to
  must be a forward run of the agent suspended at a yield, and the gradients one per
  yielded slot; the backward subgraph then runs to its first yield or its end as a run
  of its own, under a new run identifier. The forward run stays suspended.
\<close>
definition native_run_backward ::
  "addr \<Rightarrow> 'v list \<Rightarrow> run_id \<Rightarrow> 'v world \<Rightarrow> (error + 'v list \<times> run_id \<times> token_id) \<times> 'v world" where
  "native_run_backward a grads rid w =
     (case lookup (runs w) rid of
        None \<Rightarrow> (Inl InvalidRun, w)
      | Some (owner, Completed tok) \<Rightarrow> (Inl InvalidRun, w)
      | Some (owner, Suspended d tok slots rest) \<Rightarrow>
          if owner \<noteq> a \<or> d \<noteq> Forward then (Inl InvalidRun, w)
          else if length grads \<noteq> length slots then (Inl ValueCountMismatch, w)
          else (case graph_of w a of
                  None \<Rightarrow> (Inl InvalidHandle, w)
                | Some g \<Rightarrow>
                    (case reach Backward (next_token w) (backward g) of
                       (outs, st) \<Rightarrow>
                         (Inr (outs, length (runs w), next_token w),
                          w\<lparr>runs := runs w @ [(a, st)], next_token := Suc (next_token w)\<rparr>))))"

text \<open>Modelled from the spec: the collaborators of the specification, together.\<close>
definition native :: "('v, 'v world) collaborators" where
  "native =
     \<lparr>InferenceSession_init = native_InferenceSession_init,
      C_TrainingAgent_init = native_C_TrainingAgent_init,
      IOBinding_init = native_IOBinding_init,
      c_run_forward = native_run_forward,
      c_resume_forward = native_resume Forward,
      c_run_backward = native_run_backward,
      c_resume_backward = native_resume Backward\<rparr>"

subsection \<open>Calls and their effect on the world\<close>

text \<open>
  The calls a program can make on the class: the constructor and the six methods, on
  any agent. \<open>after\<close> is the world a call leaves, \<open>after_all\<close> the world a sequence of
  calls leaves.
\<close>
datatype 'v call =
    Construct model_source "options option" "provider list option" "options list option"
  | CreateTrainingAgent TrainingAgent model_source "options option" "provider list option"
      "options list option"
  | IoBinding TrainingAgent
  | RunForward TrainingAgent IOBinding options
  | ResumeForward TrainingAgent "'v list" run_id
  | RunBackward TrainingAgent "'v list" run_id
  | ResumeBackward TrainingAgent "'v list" run_id

fun after :: "('v, 'w) collaborators \<Rightarrow> 'v call \<Rightarrow> 'w \<Rightarrow> 'w" where
  "after env (Construct p so ps os) w = snd (TrainingAgent_init env p so ps os w)"
| "after env (CreateTrainingAgent self p so ps os) w =
     snd (snd (create_training_agent env self p so ps os w))"
| "after env (IoBinding self) w = snd (snd (io_binding env self w))"
| "after env (RunForward self iob ro) w = snd (snd (run_forward env self iob ro w))"
| "after env (ResumeForward self xs rid) w = snd (snd (resume_forward env self xs rid w))"
| "after env (RunBackward self xs rid) w = snd (snd (run_backward env self xs rid w))"
| "after env (ResumeBackward self xs rid) w = snd (snd (resume_backward env self xs rid w))"

definition after_all :: "('v, 'w) collaborators \<Rightarrow> 'v call list \<Rightarrow> 'w \<Rightarrow> 'w" where
  "after_all env cs w = fold (after env) cs w"

text \<open>Modelled from the spec: a run in its terminal state \<^verbatim>\<open>COMPLETED\<close>.\<close>
definition terminal :: "'v world \<Rightarrow> run_id \<Rightarrow> bool" where
  "terminal w rid =
     (case lookup (runs w) rid of
        None \<Rightarrow> False
      | Some (owner, Completed tok) \<Rightarrow> True
      | Some (owner, Suspended d tok slots rest) \<Rightarrow> False)"

subsection \<open>A scenario\<close>

text \<open>
  Two models over tensors named by numbers: one whose forward subgraph yields the slots
  \<open>[10, 11]\<close> once and whose backward subgraph yields once, and one with no yield
  operator. \<open>world1\<close> is \<open>world0\<close> after an agent was built on the first model,
  \<open>world2\<close> after its forward run reached the yield, \<open>world3\<close> after the backward run
  started from that yield reached the backward yield.
\<close>
definition two_stage :: "nat graph" where
  "two_stage = \<lparr>forward = Yield [10, 11] (End [12]), backward = Yield [20] (End [21, 22])\<rparr>"

definition no_yield :: "nat graph" where
  "no_yield = \<lparr>forward = End [30, 31], backward = End []\<rparr>"

definition world0 :: "nat world" where
  "world0 =
     \<lparr>models = [(Path ''two_stage.onnx'', two_stage), (Path ''no_yield.onnx'', no_yield)],
      available_providers = [''CPUExecutionProvider''],
      sessions = [], agents = [], bindings = [], runs = [], next_token = 0\<rparr>"

definition agent0 :: TrainingAgent where
  "agent0 = \<lparr>training_agent = Some 0, inference_session = Some (InferenceSession 0)\<rparr>"

definition world1 :: "nat world" where
  "world1 = world0\<lparr>sessions := [two_stage], agents := [0]\<rparr>"

definition world2 :: "nat world" where
  "world2 = world1\<lparr>runs := [(0, Suspended Forward 0 [10, 11] (End [12]))], next_token := 1\<rparr>"

definition world3 :: "nat world" where
  "world3 =
     world1\<lparr>runs := [(0, Suspended Forward 0 [10, 11] (End [12])),
                     (0, Suspended Backward 1 [20] (End [21, 22]))],
            next_token := 2\<rparr>"

text \<open>\<open>world_flat\<close> is \<open>world0\<close> after an agent was built on the model with no yield.\<close>
definition world_flat :: "nat world" where
  "world_flat = world0\<lparr>sessions := [no_yield], agents := [0]\<rparr>"

section \<open>Properties\<close>

subsection \<open>The scenario, step by step\<close>

lemmas native_simps =
  native_def native_InferenceSession_init_def native_C_TrainingAgent_init_def
  native_IOBinding_init_def native_run_forward_def native_resume_def native_run_backward_def
  lookup_def graph_of_def inline_and_parallel_def format_ok_def providers_resolved_def

lemmas scenario_simps =
  world0_def world1_def world2_def world3_def agent0_def two_stage_def no_yield_def

lemma agent0_native: "training_agent agent0 = Some 0"
  by (simp add: agent0_def)

lemma construct_two_stage:
  "TrainingAgent_init native (Path ''two_stage.onnx'') None None None world0 = (Inr agent0, world1)"
  by (simp add: TrainingAgent_init_def create_training_agent_def native_simps scenario_simps)

lemma construct_no_yield:
  "TrainingAgent_init native (Path ''no_yield.onnx'') None None None world0
     = (Inr agent0, world_flat)"
  by (simp add: TrainingAgent_init_def create_training_agent_def native_simps scenario_simps
      world_flat_def)

lemma native_forward_two_stage:
  "c_run_forward native 0 (iobinding (IOBinding 0)) [] world1 = (Inr ([10, 11], 0, 0), world2)"
  by (simp add: native_simps scenario_simps)

lemma native_resume_two_stage:
  "c_resume_forward native 0 [7, 8] 0 world2
     = (Inr ([12], 0, 1), world2\<lparr>runs := [(0, Completed 1)], next_token := 2\<rparr>)"
  by (simp add: native_simps scenario_simps)

lemma native_backward_two_stage:
  "c_run_backward native 0 [7, 8] 0 world2 = (Inr ([20], 1, 1), world3)"
  by (simp add: native_simps scenario_simps)

lemma forward_two_stage:
  "run_forward native agent0 (IOBinding 0) [] world1
     = (Inr ([OrtValue 10, OrtValue 11], 0, 0), agent0, world2)"
  by (simp add: run_forward_def native_simps scenario_simps)

lemma resume_two_stage:
  "resume_forward native agent0 [7, 8] 0 world2
     = (Inr ([OrtValue 12], 0, 1), agent0, world2\<lparr>runs := [(0, Completed 1)], next_token := 2\<rparr>)"
  by (simp add: resume_forward_def native_simps scenario_simps)

lemma backward_two_stage:
  "run_backward native agent0 [7, 8] 0 world2 = (Inr ([OrtValue 20], 1, 1), agent0, world3)"
  by (simp add: run_backward_def native_simps scenario_simps)

lemma resume_backward_two_stage:
  "resume_backward native agent0 [7, 8] 0 world2 = (Inr ([OrtValue 20], 1, 1), agent0, world3)"
  by (simp add: resume_backward_def native_simps scenario_simps)

subsection \<open>What the four operations return\<close>

text \<open>
  Claim C3. Each of the four operations returns, in the call itself, a triple of the
  value sequence, the run identifier and the continuation token; the run identifier
  and the token are those the native primitive produced for the call, unchanged, and
  the world the call leaves is the one the primitive left. For \<^verbatim>\<open>resume_backward\<close> the
  primitive of the call is the native \<^verbatim>\<open>run_backward\<close>.
\<close>
theorem run_id_and_token_pass_through:
  assumes "training_agent self = Some a"
  shows "(c_run_forward env a (iobinding iob) ro w = (Inr (outs, rid', tok), w') \<longrightarrow>
           run_forward env self iob ro w = (Inr (map OrtValue outs, rid', tok), self, w'))
       \<and> (c_resume_forward env a xs rid w = (Inr (outs, rid', tok), w') \<longrightarrow>
           resume_forward env self xs rid w = (Inr (map OrtValue outs, rid', tok), self, w'))
       \<and> (c_run_backward env a xs rid w = (Inr (outs, rid', tok), w') \<longrightarrow>
           run_backward env self xs rid w = (Inr (map OrtValue outs, rid', tok), self, w'))
       \<and> (c_run_backward env a xs rid w = (Inr (outs, rid', tok), w') \<longrightarrow>
           resume_backward env self xs rid w = (Inr (map OrtValue outs, rid', tok), self, w'))"
  using assms
  by (simp add: run_forward_def resume_forward_def run_backward_def resume_backward_def)

text \<open>The four operations on the scenario, each from the result of its primitive.\<close>
theorem run_id_and_token_pass_through_witness:
  "run_forward native agent0 (IOBinding 0) [] world1
     = (Inr (map OrtValue [10, 11], 0, 0), agent0, world2)
   \<and> resume_forward native agent0 [7, 8] 0 world2
     = (Inr (map OrtValue [12], 0, 1), agent0, world2\<lparr>runs := [(0, Completed 1)], next_token := 2\<rparr>)
   \<and> run_backward native agent0 [7, 8] 0 world2
     = (Inr (map OrtValue [20], 1, 1), agent0, world3)
   \<and> resume_backward native agent0 [7, 8] 0 world2
     = (Inr (map OrtValue [20], 1, 1), agent0, world3)"
proof -
  note t = run_id_and_token_pass_through [OF agent0_native, where env = native]
  from t native_forward_two_stage
  have "run_forward native agent0 (IOBinding 0) [] world1
          = (Inr (map OrtValue [10, 11], 0, 0), agent0, world2)"
    by blast
  moreover from t native_resume_two_stage
  have "resume_forward native agent0 [7, 8] 0 world2
          = (Inr (map OrtValue [12], 0, 1), agent0,
             world2\<lparr>runs := [(0, Completed 1)], next_token := 2\<rparr>)"
    by blast
  moreover from t native_backward_two_stage
  have "run_backward native agent0 [7, 8] 0 world2
          = (Inr (map OrtValue [20], 1, 1), agent0, world3)"
    by blast
  moreover from t native_backward_two_stage
  have "resume_backward native agent0 [7, 8] 0 world2
          = (Inr (map OrtValue [20], 1, 1), agent0, world3)"
    by blast
  ultimately show ?thesis by simp
qed

lemma reach_slots: "reach d tok sg = (outs, st) \<Longrightarrow> outs = declared_slots sg"
  by (cases sg) auto

lemma wrapped:
  "vals = map OrtValue outs \<longleftrightarrow>
     length vals = length outs \<and> (\<forall>i<length outs. vals ! i = OrtValue (outs ! i))"
  by (auto simp: list_eq_iff_nth_eq)

lemma wrapped_map:
  "length (map OrtValue outs) = length outs
   \<and> (\<forall>i<length outs. map OrtValue outs ! i = OrtValue (outs ! i))"
  by simp

lemma resume_backward_is_run_backward:
  "resume_backward env self xs rid w = run_backward env self xs rid w"
  by (simp add: resume_backward_def run_backward_def)

text \<open>
  Claim C2. A call of any of the four operations succeeds exactly when its native
  primitive does, and the list it returns has the length and the order of the list the
  primitive returned: its element at each position wraps the primitive's element at
  that position. With the session of the specification, the values returned are the
  declared output slots of the point the call reaches, one wrapped value for each slot
  and in the order of the slots: the first point of the forward subgraph for
  \<^verbatim>\<open>run_forward\<close>, the next point of the suspended run for \<^verbatim>\<open>resume_forward\<close>, the first
  point of the backward subgraph for \<^verbatim>\<open>run_backward\<close> and for \<^verbatim>\<open>resume_backward\<close>.
\<close>
theorem returned_values_match_outputs:
  "(run_forward env self iob ro w = (Inr (vals, r, t), self', w')
      \<longleftrightarrow> (\<exists>a outs. training_agent self = Some a
            \<and> c_run_forward env a (iobinding iob) ro w = (Inr (outs, r, t), w')
            \<and> self' = self \<and> length vals = length outs
            \<and> (\<forall>i<length outs. vals ! i = OrtValue (outs ! i))))
   \<and> (resume_forward env self xs rid w = (Inr (vals, r, t), self', w')
      \<longleftrightarrow> (\<exists>a outs. training_agent self = Some a
            \<and> c_resume_forward env a xs rid w = (Inr (outs, r, t), w')
            \<and> self' = self \<and> length vals = length outs
            \<and> (\<forall>i<length outs. vals ! i = OrtValue (outs ! i))))
   \<and> (run_backward env self xs rid w = (Inr (vals, r, t), self', w')
      \<longleftrightarrow> (\<exists>a outs. training_agent self = Some a
            \<and> c_run_backward env a xs rid w = (Inr (outs, r, t), w')
            \<and> self' = self \<and> length vals = length outs
            \<and> (\<forall>i<length outs. vals ! i = OrtValue (outs ! i))))
   \<and> (resume_backward env self xs rid w = (Inr (vals, r, t), self', w')
      \<longleftrightarrow> (\<exists>a outs. training_agent self = Some a
            \<and> c_run_backward env a xs rid w = (Inr (outs, r, t), w')
            \<and> self' = self \<and> length vals = length outs
            \<and> (\<forall>i<length outs. vals ! i = OrtValue (outs ! i))))
   \<and> (fst (run_forward native self iob ro wn) = Inr (vals, r, t)
      \<longleftrightarrow> (\<exists>a g. training_agent self = Some a \<and> graph_of wn a = Some g
            \<and> r = length (runs wn) \<and> t = next_token wn
            \<and> length vals = length (declared_slots (forward g))
            \<and> (\<forall>i<length (declared_slots (forward g)). vals ! i = OrtValue (declared_slots (forward g) ! i))))
   \<and> (fst (resume_forward native self xs rid wn) = Inr (vals, r, t)
      \<longleftrightarrow> (\<exists>a tok0 yielded rest. training_agent self = Some a
            \<and> lookup (runs wn) rid = Some (a, Suspended Forward tok0 yielded rest)
            \<and> length xs = length yielded \<and> r = rid \<and> t = next_token wn
            \<and> length vals = length (declared_slots rest)
            \<and> (\<forall>i<length (declared_slots rest). vals ! i = OrtValue (declared_slots rest ! i))))
   \<and> (fst (run_backward native self xs rid wn) = Inr (vals, r, t)
      \<longleftrightarrow> (\<exists>a tok0 yielded rest g. training_agent self = Some a
            \<and> lookup (runs wn) rid = Some (a, Suspended Forward tok0 yielded rest)
            \<and> length xs = length yielded \<and> graph_of wn a = Some g
            \<and> r = length (runs wn) \<and> t = next_token wn
            \<and> length vals = length (declared_slots (backward g))
            \<and> (\<forall>i<length (declared_slots (backward g)). vals ! i = OrtValue (declared_slots (backward g) ! i))))
   \<and> (fst (resume_backward native self xs rid wn) = Inr (vals, r, t)
      \<longleftrightarrow> (\<exists>a tok0 yielded rest g. training_agent self = Some a
            \<and> lookup (runs wn) rid = Some (a, Suspended Forward tok0 yielded rest)
            \<and> length xs = length yielded \<and> graph_of wn a = Some g
            \<and> r = length (runs wn) \<and> t = next_token wn
            \<and> length vals = length (declared_slots (backward g))
            \<and> (\<forall>i<length (declared_slots (backward g)). vals ! i = OrtValue (declared_slots (backward g) ! i))))"
proof -
  have g1: "run_forward env self iob ro w = (Inr (vals, r, t), self', w')
      \<longleftrightarrow> (\<exists>a outs. training_agent self = Some a
            \<and> c_run_forward env a (iobinding iob) ro w = (Inr (outs, r, t), w')
            \<and> self' = self \<and> vals = map OrtValue outs)"
    by (auto simp: run_forward_def split: option.splits sum.splits prod.splits)
  have g2: "resume_forward env self xs rid w = (Inr (vals, r, t), self', w')
      \<longleftrightarrow> (\<exists>a outs. training_agent self = Some a
            \<and> c_resume_forward env a xs rid w = (Inr (outs, r, t), w')
            \<and> self' = self \<and> vals = map OrtValue outs)"
    by (auto simp: resume_forward_def split: option.splits sum.splits prod.splits)
  have g3: "run_backward env self xs rid w = (Inr (vals, r, t), self', w')
      \<longleftrightarrow> (\<exists>a outs. training_agent self = Some a
            \<and> c_run_backward env a xs rid w = (Inr (outs, r, t), w')
            \<and> self' = self \<and> vals = map OrtValue outs)"
    by (auto simp: run_backward_def split: option.splits sum.splits prod.splits)
  have g4: "resume_backward env self xs rid w = (Inr (vals, r, t), self', w')
      \<longleftrightarrow> (\<exists>a outs. training_agent self = Some a
            \<and> c_run_backward env a xs rid w = (Inr (outs, r, t), w')
            \<and> self' = self \<and> vals = map OrtValue outs)"
    by (auto simp: resume_backward_def split: option.splits sum.splits prod.splits)
  have n1: "fst (run_forward native self iob ro wn) = Inr (vals, r, t)
      \<longleftrightarrow> (\<exists>a g. training_agent self = Some a \<and> graph_of wn a = Some g
            \<and> r = length (runs wn) \<and> t = next_token wn
            \<and> vals = map OrtValue (declared_slots (forward g)))"
    by (auto simp: run_forward_def native_def native_run_forward_def
        split: option.splits sum.splits prod.splits dest: reach_slots)
  have n2: "fst (resume_forward native self xs rid wn) = Inr (vals, r, t)
      \<longleftrightarrow> (\<exists>a tok0 yielded rest. training_agent self = Some a
            \<and> lookup (runs wn) rid = Some (a, Suspended Forward tok0 yielded rest)
            \<and> length xs = length yielded \<and> r = rid \<and> t = next_token wn
            \<and> vals = map OrtValue (declared_slots rest))"
    by (auto simp: resume_forward_def native_def native_resume_def
        split: option.splits sum.splits prod.splits run_state.splits if_splits
        dest: reach_slots)
  have n3: "fst (run_backward native self xs rid wn) = Inr (vals, r, t)
      \<longleftrightarrow> (\<exists>a tok0 yielded rest g. training_agent self = Some a
            \<and> lookup (runs wn) rid = Some (a, Suspended Forward tok0 yielded rest)
            \<and> length xs = length yielded \<and> graph_of wn a = Some g
            \<and> r = length (runs wn) \<and> t = next_token wn
            \<and> vals = map OrtValue (declared_slots (backward g)))"
    by (auto simp: run_backward_def native_def native_run_backward_def
        split: option.splits sum.splits prod.splits run_state.splits if_splits
        dest: reach_slots)
  have n4: "fst (resume_backward native self xs rid wn) = Inr (vals, r, t)
      \<longleftrightarrow> (\<exists>a tok0 yielded rest g. training_agent self = Some a
            \<and> lookup (runs wn) rid = Some (a, Suspended Forward tok0 yielded rest)
            \<and> length xs = length yielded \<and> graph_of wn a = Some g
            \<and> r = length (runs wn) \<and> t = next_token wn
            \<and> vals = map OrtValue (declared_slots (backward g)))"
    using n3 by (simp add: resume_backward_is_run_backward)
  show ?thesis
    unfolding g1 g2 g3 g4 n1 n2 n3 n4 wrapped by (intro conjI) blast+
qed

text \<open>
  On the scenario: the forward run reaches the yield with the two slots \<open>[10, 11]\<close>,
  its resumption the end of the graph with one output, and the backward run the yield
  with one slot.
\<close>
theorem returned_values_match_outputs_witness:
  "run_forward native agent0 (IOBinding 0) [] world1
     = (Inr (map OrtValue [10, 11], 0, 0), agent0, world2)
   \<and> fst (run_forward native agent0 (IOBinding 0) [] world1)
     = Inr (map OrtValue (declared_slots (forward two_stage)), 0, 0)
   \<and> resume_forward native agent0 [7, 8] 0 world2
     = (Inr (map OrtValue [12], 0, 1), agent0, world2\<lparr>runs := [(0, Completed 1)], next_token := 2\<rparr>)
   \<and> fst (resume_forward native agent0 [7, 8] 0 world2)
     = Inr (map OrtValue (declared_slots (End [12])), 0, 1)
   \<and> run_backward native agent0 [7, 8] 0 world2 = (Inr (map OrtValue [20], 1, 1), agent0, world3)
   \<and> fst (run_backward native agent0 [7, 8] 0 world2)
     = Inr (map OrtValue (declared_slots (backward two_stage)), 1, 1)
   \<and> resume_backward native agent0 [7, 8] 0 world2 = (Inr (map OrtValue [20], 1, 1), agent0, world3)
   \<and> fst (resume_backward native agent0 [7, 8] 0 world2)
     = Inr (map OrtValue (declared_slots (backward two_stage)), 1, 1)"
proof -
  note t = returned_values_match_outputs [where env = native and self = agent0 and self' = agent0]
  note c1 = t [THEN conjunct1, THEN iffD2]
  note c2 = t [THEN conjunct2, THEN conjunct1, THEN iffD2]
  note c3 = t [THEN conjunct2, THEN conjunct2, THEN conjunct1, THEN iffD2]
  note c4 = t [THEN conjunct2, THEN conjunct2, THEN conjunct2, THEN conjunct1, THEN iffD2]
  note c5 = t [THEN conjunct2, THEN conjunct2, THEN conjunct2, THEN conjunct2, THEN conjunct1,
    THEN iffD2]
  note c6 = t [THEN conjunct2, THEN conjunct2, THEN conjunct2, THEN conjunct2, THEN conjunct2,
    THEN conjunct1, THEN iffD2]
  note c7 = t [THEN conjunct2, THEN conjunct2, THEN conjunct2, THEN conjunct2, THEN conjunct2,
    THEN conjunct2, THEN conjunct1, THEN iffD2]
  note c8 = t [THEN conjunct2, THEN conjunct2, THEN conjunct2, THEN conjunct2, THEN conjunct2,
    THEN conjunct2, THEN conjunct2, THEN iffD2]
  have g: "graph_of world1 0 = Some two_stage" "graph_of world2 0 = Some two_stage"
    by (simp_all add: graph_of_def lookup_def scenario_simps)
  have s: "lookup (runs world2) 0 = Some (0, Suspended Forward 0 [10, 11] (End [12]))"
    by (simp add: lookup_def scenario_simps)
  have n: "0 = length (runs world1)" "0 = next_token world1"
    "1 = length (runs world2)" "1 = next_token world2"
    by (simp_all add: scenario_simps)
  have l: "length [7, 8 :: nat] = length [10, 11 :: nat]"
    by simp
  have 1: "run_forward native agent0 (IOBinding 0) [] world1
             = (Inr (map OrtValue [10, 11], 0, 0), agent0, world2)"
    using agent0_native native_forward_two_stage wrapped_map [of "[10, 11]"]
    by (intro c1) blast
  have 2: "fst (run_forward native agent0 (IOBinding 0) [] world1)
             = Inr (map OrtValue (declared_slots (forward two_stage)), 0, 0)"
    using agent0_native g(1) n(1,2) wrapped_map [of "declared_slots (forward two_stage)"]
    by (intro c5) blast
  have 3: "resume_forward native agent0 [7, 8] 0 world2
             = (Inr (map OrtValue [12], 0, 1), agent0,
                world2\<lparr>runs := [(0, Completed 1)], next_token := 2\<rparr>)"
    using agent0_native native_resume_two_stage wrapped_map [of "[12]"]
    by (intro c2) blast
  have 4: "fst (resume_forward native agent0 [7, 8] 0 world2)
             = Inr (map OrtValue (declared_slots (End [12])), 0, 1)"
    using agent0_native s l n(4) wrapped_map [of "declared_slots (End [12])"]
    by (intro c6) blast
  have 5: "run_backward native agent0 [7, 8] 0 world2
             = (Inr (map OrtValue [20], 1, 1), agent0, world3)"
    using agent0_native native_backward_two_stage wrapped_map [of "[20]"]
    by (intro c3) blast
  have 6: "fst (run_backward native agent0 [7, 8] 0 world2)
             = Inr (map OrtValue (declared_slots (backward two_stage)), 1, 1)"
    using agent0_native s l g(2) n(3,4) wrapped_map [of "declared_slots (backward two_stage)"]
    by (intro c7) blast
  have 7: "resume_backward native agent0 [7, 8] 0 world2
             = (Inr (map OrtValue [20], 1, 1), agent0, world3)"
    using agent0_native native_backward_two_stage wrapped_map [of "[20]"]
    by (intro c4) blast
  have 8: "fst (resume_backward native agent0 [7, 8] 0 world2)
             = Inr (map OrtValue (declared_slots (backward two_stage)), 1, 1)"
    using agent0_native s l g(2) n(3,4) wrapped_map [of "declared_slots (backward two_stage)"]
    by (intro c8) blast
  from 1 2 3 4 5 6 7 8 show ?thesis
    by (intro conjI)
qed

subsection \<open>What the operations pass to the native agent\<close>

text \<open>
  Claim C9. \<^verbatim>\<open>resume_forward\<close>, \<^verbatim>\<open>run_backward\<close> and \<^verbatim>\<open>resume_backward\<close> hand the caller's
  value sequence and run identifier to the native primitive as they are: whatever the
  primitive answers on exactly these inputs is the outcome of the operation, an error
  unchanged, a result with its values wrapped as \<^verbatim>\<open>OrtValue\<close>. The inputs are native
  values and are not unwrapped; only what is returned is wrapped.
\<close>
theorem inputs_reach_primitive_as_given:
  assumes "training_agent self = Some a"
  shows "(c_resume_forward env a xs rid w = (r, w') \<longrightarrow>
           resume_forward env self xs rid w
             = (case r of
                  Inl e \<Rightarrow> Inl e
                | Inr (outs, rid', tok) \<Rightarrow> Inr (map OrtValue outs, rid', tok), self, w'))
       \<and> (c_run_backward env a xs rid w = (r, w') \<longrightarrow>
           run_backward env self xs rid w
             = (case r of
                  Inl e \<Rightarrow> Inl e
                | Inr (outs, rid', tok) \<Rightarrow> Inr (map OrtValue outs, rid', tok), self, w'))
       \<and> (c_run_backward env a xs rid w = (r, w') \<longrightarrow>
           resume_backward env self xs rid w
             = (case r of
                  Inl e \<Rightarrow> Inl e
                | Inr (outs, rid', tok) \<Rightarrow> Inr (map OrtValue outs, rid', tok), self, w'))"
  using assms
  by (auto simp: resume_forward_def run_backward_def resume_backward_def
      split: sum.splits prod.splits)

text \<open>
  On the scenario: two replacement values for the two yielded slots are accepted, and a
  single value reaches the primitive as a single value, which the primitive rejects.
\<close>
theorem inputs_reach_primitive_as_given_witness:
  "resume_forward native agent0 [7, 8] 0 world2
     = (Inr ([OrtValue 12], 0, 1), agent0, world2\<lparr>runs := [(0, Completed 1)], next_token := 2\<rparr>)
   \<and> resume_forward native agent0 [7] 0 world2 = (Inl ValueCountMismatch, agent0, world2)
   \<and> run_backward native agent0 [7, 8] 0 world2 = (Inr ([OrtValue 20], 1, 1), agent0, world3)
   \<and> resume_backward native agent0 [7, 8] 0 world2 = (Inr ([OrtValue 20], 1, 1), agent0, world3)"
proof -
  note t = inputs_reach_primitive_as_given [OF agent0_native, where env = native]
  have short: "c_resume_forward native 0 [7] 0 world2 = (Inl ValueCountMismatch, world2)"
    by (simp add: native_simps scenario_simps)
  from t native_resume_two_stage
  have "resume_forward native agent0 [7, 8] 0 world2
          = (case Inr ([12], 0, 1) of
               Inl e \<Rightarrow> Inl e
             | Inr (outs, rid', tok) \<Rightarrow> Inr (map OrtValue outs, rid', tok),
             agent0, world2\<lparr>runs := [(0, Completed 1)], next_token := 2\<rparr>)"
    by blast
  moreover from t short
  have "resume_forward native agent0 [7] 0 world2
          = (case Inl ValueCountMismatch of
               Inl e \<Rightarrow> Inl e
             | Inr (outs, rid', tok) \<Rightarrow> Inr (map OrtValue outs, rid', tok),
             agent0, world2)"
    by blast
  moreover from t native_backward_two_stage
  have "run_backward native agent0 [7, 8] 0 world2
          = (case Inr ([20], 1, 1) of
               Inl e \<Rightarrow> Inl e
             | Inr (outs, rid', tok) \<Rightarrow> Inr (map OrtValue outs, rid', tok),
             agent0, world3)"
    by blast
  moreover from t native_backward_two_stage
  have "resume_backward native agent0 [7, 8] 0 world2
          = (case Inr ([20], 1, 1) of
               Inl e \<Rightarrow> Inl e
             | Inr (outs, rid', tok) \<Rightarrow> Inr (map OrtValue outs, rid', tok),
             agent0, world3)"
    by blast
  ultimately show ?thesis by simp
qed

subsection \<open>Construction\<close>

text \<open>
  Claim C6. When the session's constructor fails, for a model that does not load or
  for providers that do not resolve, the construction of the agent fails with the same
  error, and the caller gets no agent, whole or partial.
\<close>
theorem construction_is_all_or_nothing:
  assumes "InferenceSession_init env p so ps os w = (Inl e, w')"
  shows "TrainingAgent_init env p so ps os w = (Inl e, w')
       \<and> (\<forall>agent. fst (TrainingAgent_init env p so ps os w) \<noteq> Inr agent)"
  using assms by (simp add: TrainingAgent_init_def create_training_agent_def)

text \<open>
  The same holds when the session is built and the native agent is not: the session
  was assigned to the new object, but the caller never gets the object.
\<close>
lemma construction_fails_with_native_agent:
  assumes "InferenceSession_init env p so ps os w = (Inr s, w1)"
    and "C_TrainingAgent_init env (sess s) w1 = (Inl e, w2)"
  shows "TrainingAgent_init env p so ps os w = (Inl e, w2)"
  using assms by (simp add: TrainingAgent_init_def create_training_agent_def)

text \<open>A model that is not there, and a provider that is not available.\<close>
theorem construction_is_all_or_nothing_witness:
  "TrainingAgent_init native (Path ''missing.onnx'') None None None world0
     = (Inl ConstructionError, world0)
   \<and> TrainingAgent_init native (Path ''two_stage.onnx'') None
       (Some [ProviderName ''CUDAExecutionProvider'']) None world0
     = (Inl ConstructionError, world0)"
proof -
  have load: "InferenceSession_init native (Path ''missing.onnx'') None None None world0
                = (Inl ConstructionError, world0)"
    by (simp add: native_simps scenario_simps)
  have resolve: "InferenceSession_init native (Path ''two_stage.onnx'') None
                   (Some [ProviderName ''CUDAExecutionProvider'']) None world0
                = (Inl ConstructionError, world0)"
    by (simp add: native_simps scenario_simps)
  show ?thesis
    using construction_is_all_or_nothing [OF load] construction_is_all_or_nothing [OF resolve]
    by blast
qed

text \<open>
  Claim C7. Construction with options inside the providers list and a parallel
  \<^verbatim>\<open>provider_options\<close> list as well fails with a configuration error, whatever the model
  and the session options; the world is as it was, so no session, no agent and no run
  exists that a graph could have been executed on.
\<close>
theorem inline_and_parallel_options_rejected:
  assumes "list_ex has_options ps"
  shows "TrainingAgent_init native p so (Some ps) (Some os) w = (Inl ConfigurationError, w)"
  using assms
  by (simp add: TrainingAgent_init_def create_training_agent_def native_def
      native_InferenceSession_init_def inline_and_parallel_def)

text \<open>A tuple for the first of two providers, and an options list beside them.\<close>
theorem inline_and_parallel_options_rejected_witness:
  "list_ex has_options
     [ProviderWithOptions ''CUDAExecutionProvider'' [(''device_id'', ''0'')],
      ProviderName ''CPUExecutionProvider'']
   \<and> TrainingAgent_init native (Path ''two_stage.onnx'') None
       (Some [ProviderWithOptions ''CUDAExecutionProvider'' [(''device_id'', ''0'')],
              ProviderName ''CPUExecutionProvider''])
       (Some [[], []]) world0
     = (Inl ConfigurationError, world0)"
proof -
  have inline: "list_ex has_options
     [ProviderWithOptions ''CUDAExecutionProvider'' [(''device_id'', ''0'')],
      ProviderName ''CPUExecutionProvider'']"
    by simp
  show ?thesis
    using inline inline_and_parallel_options_rejected [OF inline] by blast
qed

subsection \<open>The agent and its session\<close>

text \<open>
  Claim C8, as amended. A successful construction builds one session and one native
  agent on that session's handle, and the agent holds exactly these two. Each of the
  five operations \<^verbatim>\<open>io_binding\<close>, \<^verbatim>\<open>run_forward\<close>, \<^verbatim>\<open>resume_forward\<close>, \<^verbatim>\<open>run_backward\<close> and
  \<^verbatim>\<open>resume_backward\<close> leaves both attributes of the agent as they were, whether it
  succeeds or fails.
\<close>
theorem operations_keep_association:
  "(TrainingAgent_init env p so ps os w = (Inr agent, w') \<longrightarrow>
      (\<exists>s a w1. InferenceSession_init env p so ps os w = (Inr s, w1)
         \<and> C_TrainingAgent_init env (sess s) w1 = (Inr a, w')
         \<and> agent = \<lparr>training_agent = Some a, inference_session = Some s\<rparr>))
   \<and> fst (snd (io_binding env self w)) = self
   \<and> fst (snd (run_forward env self iob ro w)) = self
   \<and> fst (snd (resume_forward env self xs rid w)) = self
   \<and> fst (snd (run_backward env self xs rid w)) = self
   \<and> fst (snd (resume_backward env self xs rid w)) = self"
  by (auto simp: TrainingAgent_init_def create_training_agent_def io_binding_def
      run_forward_def resume_forward_def run_backward_def resume_backward_def Let_def
      split: option.splits sum.splits prod.splits)

text \<open>The agent of the scenario: built on session 0 and native agent 0, and kept.\<close>
theorem operations_keep_association_witness:
  "(\<exists>s a w1. InferenceSession_init native (Path ''two_stage.onnx'') None None None world0
               = (Inr s, w1)
      \<and> C_TrainingAgent_init native (sess s) w1 = (Inr a, world1)
      \<and> agent0 = \<lparr>training_agent = Some a, inference_session = Some s\<rparr>)
   \<and> fst (snd (io_binding native agent0 world1)) = agent0
   \<and> fst (snd (run_forward native agent0 (IOBinding 0) [] world1)) = agent0
   \<and> fst (snd (resume_forward native agent0 [7, 8] 0 world2)) = agent0
   \<and> fst (snd (run_backward native agent0 [7, 8] 0 world2)) = agent0
   \<and> fst (snd (resume_backward native agent0 [7, 8] 0 world2)) = agent0"
  using construct_two_stage
    operations_keep_association [where env = native and agent = agent0 and self = agent0]
  by blast

text \<open>
  Claim C8, as stated, fails: \<^verbatim>\<open>create_training_agent\<close> is a method of the agent like the
  others, and called on the agent of the scenario with the second model it puts a new
  session and a new native agent in the place of the ones construction established.
\<close>
theorem create_training_agent_replaces_association:
  "TrainingAgent_init native (Path ''two_stage.onnx'') None None None world0 = (Inr agent0, world1)
   \<and> create_training_agent native agent0 (Path ''no_yield.onnx'') None None None world1
     = (Inr (),
        \<lparr>training_agent = Some 1, inference_session = Some (InferenceSession 1)\<rparr>,
        world1\<lparr>sessions := [two_stage, no_yield], agents := [0, 1]\<rparr>)
   \<and> inference_session
        (fst (snd (create_training_agent native agent0 (Path ''no_yield.onnx'') None None None
           world1))) \<noteq> inference_session agent0
   \<and> training_agent
        (fst (snd (create_training_agent native agent0 (Path ''no_yield.onnx'') None None None
           world1))) \<noteq> training_agent agent0"
  by (simp add: TrainingAgent_init_def create_training_agent_def native_simps scenario_simps)

subsection \<open>The binding an agent hands out\<close>

text \<open>
  Claim C10. \<^verbatim>\<open>io_binding\<close> leaves the agent as it was and returns what the constructor
  of \<^verbatim>\<open>IOBinding\<close> makes of the agent's own session. With the constructor of the
  specification, every call returns a binding that was not there before the call and
  that is bound to the native session of the agent's session.
\<close>
theorem io_binding_is_new_and_bound:
  "fst (snd (io_binding env self w)) = self
   \<and> (fst (io_binding env self w), snd (snd (io_binding env self w)))
       = IOBinding_init env (inference_session self) w
   \<and> (inference_session self = Some s \<longrightarrow>
        (\<exists>b. io_binding native self wn
                = (Inr (IOBinding b), self, wn\<lparr>bindings := bindings wn @ [sess s]\<rparr>)
           \<and> lookup (bindings wn) b = None
           \<and> lookup (bindings wn @ [sess s]) b = Some (sess s)))"
  by (auto simp: io_binding_def native_def native_IOBinding_init_def lookup_def
      split: prod.splits)

text \<open>Two calls on the agent of the scenario: two bindings, both on session 0.\<close>
theorem io_binding_is_new_and_bound_witness:
  "\<exists>b1 b2. io_binding native agent0 world1
             = (Inr (IOBinding b1), agent0, world1\<lparr>bindings := [0]\<rparr>)
     \<and> io_binding native agent0 (world1\<lparr>bindings := [0]\<rparr>)
             = (Inr (IOBinding b2), agent0, world1\<lparr>bindings := [0, 0]\<rparr>)
     \<and> b1 \<noteq> b2"
proof -
  have s: "inference_session agent0 = Some (InferenceSession 0)"
    by (simp add: agent0_def)
  have e: "bindings world1 = []"
    by (simp add: scenario_simps)
  note t = io_binding_is_new_and_bound
    [where self = agent0 and s = "InferenceSession 0" and env = native and w = world1]
  from t [where wn = world1] s e
  have "\<exists>b. io_binding native agent0 world1
               = (Inr (IOBinding b), agent0, world1\<lparr>bindings := [0]\<rparr>)
          \<and> lookup [0::nat] b = Some 0"
    by auto
  then obtain b1 where b1: "io_binding native agent0 world1
                         = (Inr (IOBinding b1), agent0, world1\<lparr>bindings := [0]\<rparr>)"
    and n1: "lookup [0::nat] b1 = Some 0"
    by blast
  from t [where wn = "world1\<lparr>bindings := [0]\<rparr>"] s
  have "\<exists>b. io_binding native agent0 (world1\<lparr>bindings := [0]\<rparr>)
               = (Inr (IOBinding b), agent0, world1\<lparr>bindings := [0, 0]\<rparr>)
          \<and> lookup [0::nat] b = None"
    by auto
  then obtain b2 where b2: "io_binding native agent0 (world1\<lparr>bindings := [0]\<rparr>)
                         = (Inr (IOBinding b2), agent0, world1\<lparr>bindings := [0, 0]\<rparr>)"
    and n2: "lookup [0::nat] b2 = None"
    by blast
  from n1 n2 have "b1 \<noteq> b2" by auto
  with b1 b2 show ?thesis by blast
qed

subsection \<open>Resuming a backward run\<close>

text \<open>
  Claim C1 says that \<^verbatim>\<open>resume_backward\<close> continues a suspended backward run through a
  backward-resume primitive of its own. The source calls the native \<^verbatim>\<open>run_backward\<close>, so
  the method is \<^verbatim>\<open>run_backward\<close> under a second name, on every input. In the scenario,
  after the forward run 0 and the backward run 1 started from it, resuming run 1 is
  refused as a seeding of a run that is no forward run, where the specification's
  \<^verbatim>\<open>resume_backward\<close> takes run 1 to the end of the backward subgraph.
\<close>
theorem resume_backward_calls_run_backward:
  "resume_backward env self xs rid w = run_backward env self xs rid w
   \<and> after_all native [RunForward agent0 (IOBinding 0) [], RunBackward agent0 [7, 8] 0] world1
       = world3
   \<and> resume_backward native agent0 [5] 1 world3 = (Inl InvalidRun, agent0, world3)
   \<and> resume_backward_spec native agent0 [5] 1 world3
       = (Inr ([OrtValue 21, OrtValue 22], 1, 2), agent0,
          world3\<lparr>runs := [(0, Suspended Forward 0 [10, 11] (End [12])), (0, Completed 2)],
                 next_token := 3\<rparr>)"
proof -
  have "after_all native [RunForward agent0 (IOBinding 0) [], RunBackward agent0 [7, 8] 0] world1
          = world3"
    by (simp add: after_all_def forward_two_stage backward_two_stage)
  moreover have "resume_backward native agent0 [5] 1 world3 = (Inl InvalidRun, agent0, world3)"
    by (simp add: resume_backward_def native_simps scenario_simps)
  moreover have "resume_backward_spec native agent0 [5] 1 world3
       = (Inr ([OrtValue 21, OrtValue 22], 1, 2), agent0,
          world3\<lparr>runs := [(0, Suspended Forward 0 [10, 11] (End [12])), (0, Completed 2)],
                 next_token := 3\<rparr>)"
    by (simp add: resume_backward_spec_def native_simps scenario_simps)
  ultimately show ?thesis
    by (simp add: resume_backward_is_run_backward)
qed

subsection \<open>A run that completed stays completed\<close>

lemma terminal_append:
  "terminal w rid \<Longrightarrow> terminal (w\<lparr>runs := runs w @ [x], next_token := t\<rparr>) rid"
  by (auto simp: terminal_def lookup_def nth_append split: if_splits)

lemma terminal_run_forward:
  "terminal w rid \<Longrightarrow> terminal (snd (native_run_forward a b ro w)) rid"
  by (auto simp: native_run_forward_def terminal_append split: option.splits prod.splits)

lemma terminal_resume:
  "terminal w rid \<Longrightarrow> terminal (snd (native_resume d a xs r w)) rid"
  by (auto simp: native_resume_def terminal_def lookup_def nth_list_update
      split: option.splits prod.splits run_state.splits if_splits)

lemma terminal_run_backward:
  "terminal w rid \<Longrightarrow> terminal (snd (native_run_backward a xs r w)) rid"
  by (auto simp: native_run_backward_def terminal_append
      split: option.splits prod.splits run_state.splits)

lemma terminal_session:
  "terminal w rid \<Longrightarrow> terminal (snd (native_InferenceSession_init p so ps os w)) rid"
  by (auto simp: native_InferenceSession_init_def terminal_def split: option.splits)

lemma terminal_agent:
  "terminal w rid \<Longrightarrow> terminal (snd (native_C_TrainingAgent_init s w)) rid"
  by (auto simp: native_C_TrainingAgent_init_def terminal_def)

lemma terminal_binding:
  "terminal w rid \<Longrightarrow> terminal (snd (native_IOBinding_init s w)) rid"
  by (auto simp: native_IOBinding_init_def terminal_def split: option.splits)

lemma terminal_create:
  assumes "terminal w rid"
  shows "terminal (snd (snd (create_training_agent native self p so ps os w))) rid"
proof -
  obtain r w1 where s: "native_InferenceSession_init p so ps os w = (r, w1)"
    by (cases "native_InferenceSession_init p so ps os w :: (error + InferenceSession) \<times> 'a world")
  have t1: "terminal w1 rid"
    using terminal_session [OF assms, of p so ps os] s by simp
  show ?thesis
  proof (cases r)
    case (Inl e)
    then show ?thesis
      using s t1 by (simp add: create_training_agent_def native_def)
  next
    case (Inr ses)
    obtain r2 w2 where a: "native_C_TrainingAgent_init (sess ses) w1 = (r2, w2)"
      by (cases "native_C_TrainingAgent_init (sess ses) w1 :: (error + addr) \<times> 'a world")
    have t2: "terminal w2 rid"
      using terminal_agent [OF t1, of "sess ses"] a by simp
    show ?thesis
      using s Inr a t2 by (cases r2) (simp_all add: create_training_agent_def native_def)
  qed
qed

lemma terminal_construct:
  assumes "terminal w rid"
  shows "terminal (snd (TrainingAgent_init native p so ps os w)) rid"
proof -
  have "snd (TrainingAgent_init native p so ps os w)
          = snd (snd (create_training_agent native
                        \<lparr>training_agent = None, inference_session = None\<rparr> p so ps os w))"
    by (simp add: TrainingAgent_init_def split: prod.splits sum.splits)
  then show ?thesis
    using terminal_create [OF assms] by simp
qed

lemma terminal_io_binding:
  "terminal w rid \<Longrightarrow> terminal (snd (snd (io_binding native self w))) rid"
  using terminal_binding [of w rid "inference_session self"]
  by (auto simp: io_binding_def native_def split: prod.splits)

lemma terminal_agent_run_forward:
  assumes "terminal w rid"
  shows "terminal (snd (snd (run_forward native self iob ro w))) rid"
proof (cases "training_agent self")
  case None
  then show ?thesis
    using assms by (simp add: run_forward_def)
next
  case (Some a)
  then show ?thesis
    using terminal_run_forward [OF assms, of a "iobinding iob" ro]
    by (auto simp: run_forward_def native_def split: prod.splits sum.splits)
qed

lemma terminal_agent_resume_forward:
  assumes "terminal w rid"
  shows "terminal (snd (snd (resume_forward native self xs r w))) rid"
proof (cases "training_agent self")
  case None
  then show ?thesis
    using assms by (simp add: resume_forward_def)
next
  case (Some a)
  then show ?thesis
    using terminal_resume [OF assms, of Forward a xs r]
    by (auto simp: resume_forward_def native_def split: prod.splits sum.splits)
qed

lemma terminal_agent_run_backward:
  assumes "terminal w rid"
  shows "terminal (snd (snd (run_backward native self xs r w))) rid"
proof (cases "training_agent self")
  case None
  then show ?thesis
    using assms by (simp add: run_backward_def)
next
  case (Some a)
  then show ?thesis
    using terminal_run_backward [OF assms, of a xs r]
    by (auto simp: run_backward_def native_def split: prod.splits sum.splits)
qed

lemma terminal_after: "terminal w rid \<Longrightarrow> terminal (after native c w) rid"
  by (cases c)
    (simp_all add: terminal_construct terminal_create terminal_io_binding
      terminal_agent_run_forward terminal_agent_resume_forward terminal_agent_run_backward
      resume_backward_is_run_backward)

lemma terminal_after_all: "terminal w rid \<Longrightarrow> terminal (after_all native cs w) rid"
  unfolding after_all_def
  by (induction cs arbitrary: w) (simp_all add: terminal_after)

lemma terminal_rejects:
  assumes "terminal w rid"
  shows "fst (native_resume d a xs rid w) = Inl InvalidRun"
    and "fst (native_run_backward a xs rid w) = Inl InvalidRun"
  using assms
  by (auto simp: terminal_def native_resume_def native_run_backward_def
      split: option.splits prod.splits run_state.splits)

lemma terminal_agent_rejects:
  assumes "terminal w rid" and "training_agent agent \<noteq> None"
  shows "fst (resume_forward native agent xs rid w) = Inl InvalidRun"
    and "fst (run_backward native agent xs rid w) = Inl InvalidRun"
    and "fst (resume_backward native agent xs rid w) = Inl InvalidRun"
proof -
  obtain a where a: "training_agent agent = Some a"
    using assms(2) by auto
  have r1: "fst (native_resume Forward a xs rid w) = Inl InvalidRun"
    and r2: "fst (native_run_backward a xs rid w) = Inl InvalidRun"
    using terminal_rejects [OF assms(1)] by simp_all
  show "fst (resume_forward native agent xs rid w) = Inl InvalidRun"
    using a r1 by (auto simp: resume_forward_def native_def split: prod.splits sum.splits)
  show "fst (run_backward native agent xs rid w) = Inl InvalidRun"
    using a r2 by (auto simp: run_backward_def native_def split: prod.splits sum.splits)
  show "fst (resume_backward native agent xs rid w) = Inl InvalidRun"
    using a r2 by (auto simp: resume_backward_def native_def split: prod.splits sum.splits)
qed

text \<open>
  Claim C5. On a model whose forward subgraph has no yield operator, \<^verbatim>\<open>run_forward\<close>
  returns all the outputs of the graph, wrapped, with a new run identifier and a token
  under which the session records the run as completed; and whatever calls are made
  afterwards, on any agents, every \<^verbatim>\<open>resume_forward\<close>, \<^verbatim>\<open>resume_backward\<close> and
  \<^verbatim>\<open>run_backward\<close> of a constructed agent on that run identifier fails with the
  invalid-run error.
\<close>
theorem no_yield_run_is_terminal:
  assumes "training_agent self = Some a" and "graph_of w a = Some g" and "forward g = End outs"
  shows "\<exists>w1. run_forward native self iob ro w
               = (Inr (map OrtValue outs, length (runs w), next_token w), self, w1)
           \<and> lookup (runs w1) (length (runs w)) = Some (a, Completed (next_token w))
           \<and> (\<forall>cs agent xs. training_agent agent \<noteq> None \<longrightarrow>
                fst (resume_forward native agent xs (length (runs w)) (after_all native cs w1))
                  = Inl InvalidRun
              \<and> fst (resume_backward native agent xs (length (runs w)) (after_all native cs w1))
                  = Inl InvalidRun
              \<and> fst (run_backward native agent xs (length (runs w)) (after_all native cs w1))
                  = Inl InvalidRun)"
proof -
  define w1 where
    "w1 = w\<lparr>runs := runs w @ [(a, Completed (next_token w))], next_token := Suc (next_token w)\<rparr>"
  have run: "run_forward native self iob ro w
               = (Inr (map OrtValue outs, length (runs w), next_token w), self, w1)"
    using assms by (simp add: run_forward_def native_def native_run_forward_def w1_def)
  have look: "lookup (runs w1) (length (runs w)) = Some (a, Completed (next_token w))"
    by (simp add: w1_def lookup_def)
  then have "terminal w1 (length (runs w))"
    by (simp add: terminal_def)
  then have "\<And>cs. terminal (after_all native cs w1) (length (runs w))"
    by (rule terminal_after_all)
  then show ?thesis
    using run look terminal_agent_rejects by blast
qed

text \<open>
  The model with no yield: the forward run returns both outputs, and run 0 is refused
  at once, and again after a second forward run and a binding were made.
\<close>
theorem no_yield_run_is_terminal_witness:
  "graph_of world_flat 0 = Some no_yield
   \<and> forward no_yield = End [30, 31]
   \<and> (\<exists>w1. run_forward native agent0 (IOBinding 0) [] world_flat
              = (Inr ([OrtValue 30, OrtValue 31], 0, 0), agent0, w1)
        \<and> lookup (runs w1) 0 = Some (0, Completed 0)
        \<and> fst (resume_forward native agent0 [] 0 w1) = Inl InvalidRun
        \<and> fst (resume_backward native agent0 [7] 0 w1) = Inl InvalidRun
        \<and> fst (run_backward native agent0 [7, 8] 0
                 (after_all native [RunForward agent0 (IOBinding 0) [], IoBinding agent0] w1))
            = Inl InvalidRun)"
proof -
  have g: "graph_of world_flat 0 = Some no_yield"
    by (simp add: graph_of_def lookup_def world_flat_def world0_def)
  have f: "forward no_yield = End [30, 31]"
    by (simp add: no_yield_def)
  have e: "length (runs world_flat) = 0" "next_token world_flat = 0"
    by (simp_all add: world_flat_def world0_def)
  have some: "training_agent agent0 \<noteq> None"
    by (simp add: agent0_def)
  from no_yield_run_is_terminal [OF agent0_native g f, of "IOBinding 0" "[]"]
  obtain w1 where run: "run_forward native agent0 (IOBinding 0) [] world_flat
              = (Inr (map OrtValue [30, 31], 0, 0), agent0, w1)"
    and look: "lookup (runs w1) 0 = Some (0, Completed 0)"
    and rej: "\<And>cs agent xs. training_agent agent \<noteq> None \<Longrightarrow>
                fst (resume_forward native agent xs 0 (after_all native cs w1)) = Inl InvalidRun
              \<and> fst (resume_backward native agent xs 0 (after_all native cs w1)) = Inl InvalidRun
              \<and> fst (run_backward native agent xs 0 (after_all native cs w1)) = Inl InvalidRun"
    unfolding e by blast
  have now: "after_all native [] w1 = w1"
    by (simp add: after_all_def)
  have "fst (resume_forward native agent0 [] 0 w1) = Inl InvalidRun"
    using rej [OF some, of "[]" "[]"] now by simp
  moreover have "fst (resume_backward native agent0 [7] 0 w1) = Inl InvalidRun"
    using rej [OF some, of "[7]" "[]"] now by simp
  moreover have "fst (run_backward native agent0 [7, 8] 0
                 (after_all native [RunForward agent0 (IOBinding 0) [], IoBinding agent0] w1))
            = Inl InvalidRun"
    using rej [OF some] by blast
  ultimately show ?thesis
    using g f run look by auto
qed

end
